theory Spec2Isabelle
  imports Complex_Main
begin

section \<open>The stations manager of pyowm (stationsapi30/stations_manager.py)\<close>

text \<open>
  The module is a class \<open>StationsManager\<close> whose methods validate their arguments, build
  the query parameters and the body of one HTTP request, hand the request to an HTTP client
  and give the decoded answer to a parser. The embedding keeps that shape:
  \<^item> Python values that travel in queries, bodies and answers are a datatype \<open>pyval\<close>;
  \<^item> an exception is the left summand of a result, \<open>Inl e\<close>; \<open>assert\<close> statements are
    executed (the interpreter runs without \<open>-O\<close>) and raise \<open>AssertionError\<close>;
  \<^item> the HTTP client is a parameter: a function from a request and the state of the network
    to an answer (or an exception) and the next state of the network;
  \<^item> every invocation of the HTTP client is recorded, in order, in the field \<open>calls\<close> of the
    world, the way a recording test double does;
  \<^item> a number of type \<open>float\<close> in the source (latitude, longitude, altitude) is a finite
    number, an infinity or NaN, a datatype \<open>pyfloat\<close> with Python's comparison: finite
    numbers are compared exactly (also an \<open>int\<close> with a \<open>float\<close>, so that an \<open>int\<close> argument
    is the finite number it denotes), and every comparison with NaN is false;
  \<^item> a parser is a parameter too: a function that returns an object or raises.
\<close>

subsection \<open>Values, errors, requests\<close>

datatype pyfloat = Finite real | Inf | NegInf | NaN

fun float_lt :: "pyfloat \<Rightarrow> pyfloat \<Rightarrow> bool" where
  "float_lt NaN y = False"
| "float_lt x NaN = False"
| "float_lt x NegInf = False"
| "float_lt NegInf y = True"
| "float_lt Inf y = False"
| "float_lt (Finite a) Inf = True"
| "float_lt (Finite a) (Finite b) = (a < b)"

definition float_gt :: "pyfloat \<Rightarrow> pyfloat \<Rightarrow> bool" where
  "float_gt x y = float_lt y x"

datatype pyval =
    PNone
  | PBool bool
  | PInt int
  | PFloat pyfloat
  | PStr string
  | PList "pyval list"
  | PDict "(string \<times> pyval) list"

datatype error =
    AssertionError
  | ValueError string
  | TypeError
  | OtherError string

datatype http_method = GET | POST | PUT | DELETE

record request =
  r_method :: http_method
  r_url :: string
  r_params :: "(string \<times> pyval) list"
  r_data :: "pyval option"
  r_headers :: "(string \<times> string) list"

text \<open>
  The HTTP client (\<open>pyowm.commons.http_client.HttpClient\<close>) is not part of the module. Its
  contract is \<open>get_json(url, params, headers) -> (status, data)\<close> and
  \<open>post/put/delete(url, params, data, headers) -> (status, data)\<close>; any of them may raise.
  It is a parameter of the model, over a state \<open>'w\<close> of the network of its own.
\<close>

type_synonym 'w transport = "request \<Rightarrow> 'w \<Rightarrow> (error + int \<times> pyval) \<times> 'w"

record 'w world =
  calls :: "request list"
  net :: 'w

definition http_call :: "'w transport \<Rightarrow> request \<Rightarrow> 'w world \<Rightarrow> (error + int \<times> pyval) \<times> 'w world" where
  "http_call t r s =
     (case t r (net s) of (res, w') \<Rightarrow> (res, \<lparr>calls = calls s @ [r], net = w'\<rparr>))"

definition get_json ::
  "'w transport \<Rightarrow> string \<Rightarrow> (string \<times> pyval) list \<Rightarrow> (string \<times> string) list \<Rightarrow> 'w world
     \<Rightarrow> (error + int \<times> pyval) \<times> 'w world" where
  "get_json t u ps hs =
     http_call t \<lparr>r_method = GET, r_url = u, r_params = ps, r_data = None, r_headers = hs\<rparr>"

definition post ::
  "'w transport \<Rightarrow> string \<Rightarrow> (string \<times> pyval) list \<Rightarrow> pyval \<Rightarrow> (string \<times> string) list \<Rightarrow> 'w world
     \<Rightarrow> (error + int \<times> pyval) \<times> 'w world" where
  "post t u ps d hs =
     http_call t \<lparr>r_method = POST, r_url = u, r_params = ps, r_data = Some d, r_headers = hs\<rparr>"

definition put ::
  "'w transport \<Rightarrow> string \<Rightarrow> (string \<times> pyval) list \<Rightarrow> pyval \<Rightarrow> (string \<times> string) list \<Rightarrow> 'w world
     \<Rightarrow> (error + int \<times> pyval) \<times> 'w world" where
  "put t u ps d hs =
     http_call t \<lparr>r_method = PUT, r_url = u, r_params = ps, r_data = Some d, r_headers = hs\<rparr>"

definition delete ::
  "'w transport \<Rightarrow> string \<Rightarrow> (string \<times> pyval) list \<Rightarrow> (string \<times> string) list \<Rightarrow> 'w world
     \<Rightarrow> (error + int \<times> pyval) \<times> 'w world" where
  "delete t u ps hs =
     http_call t \<lparr>r_method = DELETE, r_url = u, r_params = ps, r_data = None, r_headers = hs\<rparr>"

text \<open>
  Python's \<open>for item in data\<close> over a decoded JSON answer: a list gives its items, a dict
  its keys, a string its characters; \<open>None\<close>, a bool and a number are not iterable.
\<close>

fun py_iter :: "pyval \<Rightarrow> error + pyval list" where
  "py_iter (PList xs) = Inr xs"
| "py_iter (PDict kvs) = Inr (map (\<lambda>kv. PStr (fst kv)) kvs)"
| "py_iter (PStr cs) = Inr (map (\<lambda>c. PStr [c]) cs)"
| "py_iter PNone = Inl TypeError"
| "py_iter (PBool b) = Inl TypeError"
| "py_iter (PInt i) = Inl TypeError"
| "py_iter (PFloat x) = Inl TypeError"

subsection \<open>Stations, measurements, buffers\<close>

text \<open>
  Modelled from the spec: the class \<open>Station\<close> (\<open>pyowm.stationsapi30.station\<close>) is not part
  of the module. The spec gives it an identifier, external_id, name, latitude, longitude and
  an optional altitude; the module reads the attributes \<open>id\<close>, \<open>external_id\<close>, \<open>name\<close>,
  \<open>lat\<close>, \<open>lon\<close> and \<open>alt\<close>, any of which may be \<open>None\<close>.
\<close>

record Station =
  s_id :: "string option"
  s_external_id :: "string option"
  s_name :: "string option"
  s_lat :: "pyfloat option"
  s_lon :: "pyfloat option"
  s_alt :: "pyfloat option"

text \<open>
  Modelled from the spec: the class \<open>Measurement\<close> (\<open>pyowm.stationsapi30.measurement\<close>) is
  not part of the module. The spec gives it a station_id, a timestamp and sensor readings,
  and says that it serializes to a flat key/value body for posting (\<open>to_dict\<close>).
\<close>

record Measurement =
  m_station_id :: "string option"
  m_timestamp :: int
  m_readings :: "(string \<times> pyval) list"

definition opt_str :: "string option \<Rightarrow> pyval" where
  "opt_str x = (case x of None \<Rightarrow> PNone | Some v \<Rightarrow> PStr v)"

definition opt_num :: "pyfloat option \<Rightarrow> pyval" where
  "opt_num x = (case x of None \<Rightarrow> PNone | Some v \<Rightarrow> PFloat v)"

definition to_dict :: "Measurement \<Rightarrow> pyval" where
  "to_dict m =
     PDict ((''station_id'', opt_str (m_station_id m)) # (''timestamp'', PInt (m_timestamp m))
            # m_readings m)"

text \<open>
  Modelled from the spec: the class \<open>Buffer\<close> (\<open>pyowm.stationsapi30.buffer\<close>) is not part of
  the module. The spec makes it an ordered collection of Measurement values; iterating over
  it gives its measurements in order, and its length is their number.
\<close>

type_synonym Buffer = "Measurement list"

subsection \<open>The manager\<close>

text \<open>
  The parsers (\<open>StationParser\<close>, \<open>AggregatedMeasurementParser\<close>) are not part of the module.
  Modelled from the spec: \<open>parse_dict(dict) -> domain_object\<close> is pure, and total only over
  well-formed answers of the service; on another answer it raises, and the error propagates.
  So a parser is a function from a value to an error or an object. The source builds its
  own collaborators in \<open>__init__\<close>; here they are arguments.
\<close>

record ('w, 'am) StationsManager =
  API_key :: string
  stations_parser :: "pyval \<Rightarrow> error + Station"
  aggregated_measurements_parser :: "pyval \<Rightarrow> error + 'am"
  http_client :: "'w transport"

definition init ::
  "string option \<Rightarrow> (pyval \<Rightarrow> error + Station) \<Rightarrow> (pyval \<Rightarrow> error + 'am) \<Rightarrow> 'w transport
     \<Rightarrow> error + ('w, 'am) StationsManager" where
  "init key sp ap t =
     (case key of
        None \<Rightarrow> Inl AssertionError
      | Some k \<Rightarrow> Inr \<lparr>API_key = k, stations_parser = sp,
                        aggregated_measurements_parser = ap, http_client = t\<rparr>)"

definition STATIONS_API_VERSION :: "nat \<times> nat \<times> nat" where
  "STATIONS_API_VERSION = (3, 0, 0)"

definition stations_api_version :: "('w, 'am) StationsManager \<Rightarrow> nat \<times> nat \<times> nat" where
  "stations_api_version self = STATIONS_API_VERSION"

definition stations_url :: string where
  "stations_url = ''http://api.openweathermap.org/data/3.0/stations''"

definition measurements_url :: string where
  "measurements_url = ''http://api.openweathermap.org/data/3.0/measurements''"

definition json_headers :: "(string \<times> string) list" where
  "json_headers = [(''Content-Type'', ''application/json'')]"

definition appid :: "('w, 'am) StationsManager \<Rightarrow> (string \<times> pyval) list" where
  "appid self = [(''appid'', PStr (API_key self))]"

text \<open>\<open>str(id)\<close> of a string is the string, and \<open>str(None)\<close> is \<open>'None'\<close>.\<close>

definition py_str :: "string option \<Rightarrow> string" where
  "py_str x = (case x of None \<Rightarrow> ''None'' | Some v \<Rightarrow> v)"

definition station_url :: "string option \<Rightarrow> string" where
  "station_url i = stations_url @ ''/'' @ py_str i"

text \<open>
  The list comprehension \<open>[parser.parse_dict(item) for item in data]\<close>: the items are parsed
  in order, and the first exception of the parser leaves the comprehension.
\<close>

fun parse_each :: "(pyval \<Rightarrow> error + 'a) \<Rightarrow> pyval list \<Rightarrow> error + 'a list" where
  "parse_each parse_dict [] = Inr []"
| "parse_each parse_dict (item # rest) =
     (case parse_dict item of
        Inl e \<Rightarrow> Inl e
      | Inr v \<Rightarrow> (case parse_each parse_dict rest of Inl e \<Rightarrow> Inl e | Inr vs \<Rightarrow> Inr (v # vs)))"

subsubsection \<open>Stations\<close>

definition get_stations ::
  "('w, 'am) StationsManager \<Rightarrow> 'w world \<Rightarrow> (error + Station list) \<times> 'w world" where
  "get_stations self s =
     (case get_json (http_client self) stations_url (appid self) json_headers s of
        (Inl e, s') \<Rightarrow> (Inl e, s')
      | (Inr (status, data), s') \<Rightarrow>
          (case py_iter data of
             Inl e \<Rightarrow> (Inl e, s')
           | Inr items \<Rightarrow> (parse_each (stations_parser self) items, s')))"

definition get_station ::
  "('w, 'am) StationsManager \<Rightarrow> string option \<Rightarrow> 'w world \<Rightarrow> (error + Station) \<times> 'w world" where
  "get_station self i s =
     (case get_json (http_client self) (station_url i) (appid self) json_headers s of
        (Inl e, s') \<Rightarrow> (Inl e, s')
      | (Inr (status, data), s') \<Rightarrow> (stations_parser self data, s'))"

definition lon_message :: string where
  "lon_message = CHR 0x27 # ''lon'' @ CHR 0x27 # '' value must be between -180 and 180''"

definition lat_message :: string where
  "lat_message = CHR 0x27 # ''lat'' @ CHR 0x27 # '' value must be between -90 and 90''"

definition alt_message :: string where
  "alt_message = CHR 0x27 # ''alt'' @ CHR 0x27 # '' value must not be negative''"

definition station_body ::
  "string option \<Rightarrow> string option \<Rightarrow> pyfloat option \<Rightarrow> pyfloat option \<Rightarrow> pyfloat option
     \<Rightarrow> pyval" where
  "station_body external_id name lat lon alt =
     PDict [(''external_id'', opt_str external_id), (''name'', opt_str name),
            (''lat'', opt_num lat), (''lon'', opt_num lon), (''alt'', opt_num alt)]"

definition create_station ::
  "('w, 'am) StationsManager \<Rightarrow> string option \<Rightarrow> string option \<Rightarrow> pyfloat option
     \<Rightarrow> pyfloat option \<Rightarrow> pyfloat option \<Rightarrow> 'w world \<Rightarrow> (error + Station) \<times> 'w world" where
  "create_station self external_id name lat lon alt s =
     (if external_id = None then (Inl AssertionError, s)
      else if name = None then (Inl AssertionError, s)
      else if lon = None then (Inl AssertionError, s)
      else if lat = None then (Inl AssertionError, s)
      else if float_lt (the lon) (Finite (- 180)) \<or> float_gt (the lon) (Finite 180)
        then (Inl (ValueError lon_message), s)
      else if float_lt (the lat) (Finite (- 90)) \<or> float_gt (the lat) (Finite 90)
        then (Inl (ValueError lat_message), s)
      else if alt \<noteq> None \<and> float_lt (the alt) (Finite 0)
        then (Inl (ValueError alt_message), s)
      else
        (case post (http_client self) stations_url (appid self)
                (station_body external_id name lat lon alt) json_headers s of
           (Inl e, s') \<Rightarrow> (Inl e, s')
         | (Inr (status, payload), s') \<Rightarrow> (stations_parser self payload, s')))"

definition update_station ::
  "('w, 'am) StationsManager \<Rightarrow> Station \<Rightarrow> 'w world \<Rightarrow> (error + unit) \<times> 'w world" where
  "update_station self station s =
     (if s_id station = None then (Inl AssertionError, s)
      else
        (case put (http_client self) (station_url (s_id station)) (appid self)
                (station_body (s_external_id station) (s_name station) (s_lat station)
                   (s_lon station) (s_alt station))
                json_headers s of
           (Inl e, s') \<Rightarrow> (Inl e, s')
         | (Inr (status, x), s') \<Rightarrow> (Inr (), s')))"

definition delete_station ::
  "('w, 'am) StationsManager \<Rightarrow> Station \<Rightarrow> 'w world \<Rightarrow> (error + unit) \<times> 'w world" where
  "delete_station self station s =
     (if s_id station = None then (Inl AssertionError, s)
      else
        (case delete (http_client self) (station_url (s_id station)) (appid self)
                json_headers s of
           (Inl e, s') \<Rightarrow> (Inl e, s')
         | (Inr (status, x), s') \<Rightarrow> (Inr (), s')))"

subsubsection \<open>Measurements\<close>

definition post_measurement ::
  "('w, 'am) StationsManager \<Rightarrow> Measurement \<Rightarrow> 'w world \<Rightarrow> (error + int \<times> pyval) \<times> 'w world" where
  "post_measurement self msmt =
     post (http_client self) measurements_url (appid self) (to_dict msmt) json_headers"

definition send_measurement ::
  "('w, 'am) StationsManager \<Rightarrow> Measurement option \<Rightarrow> 'w world \<Rightarrow> (error + unit) \<times> 'w world" where
  "send_measurement self measurement s =
     (if measurement = None then (Inl AssertionError, s)
      else if m_station_id (the measurement) = None then (Inl AssertionError, s)
      else
        (case post_measurement self (the measurement) s of
           (Inl e, s') \<Rightarrow> (Inl e, s')
         | (Inr (status, x), s') \<Rightarrow> (Inr (), s')))"

text \<open>
  The loop \<open>for msmt in ...: status, _ = self.http_client.post(...)\<close>, which
  \<open>send_measurements\<close> and \<open>send_buffer\<close> both have, word for word. An exception of the
  client leaves the loop.
\<close>

fun post_each ::
  "('w, 'am) StationsManager \<Rightarrow> Measurement list \<Rightarrow> 'w world \<Rightarrow> (error + unit) \<times> 'w world" where
  "post_each self [] s = (Inr (), s)"
| "post_each self (msmt # rest) s =
     (case post_measurement self msmt s of
        (Inl e, s') \<Rightarrow> (Inl e, s')
      | (Inr (status, x), s') \<Rightarrow> post_each self rest s')"

definition send_measurements ::
  "('w, 'am) StationsManager \<Rightarrow> Measurement list option \<Rightarrow> 'w world
     \<Rightarrow> (error + unit) \<times> 'w world" where
  "send_measurements self list_of_measurements s =
     (if list_of_measurements = None then (Inl AssertionError, s)
      else if \<not> list_all (\<lambda>m. m_station_id m \<noteq> None) (the list_of_measurements)
        then (Inl AssertionError, s)
      else post_each self (the list_of_measurements) s)"

definition send_buffer ::
  "('w, 'am) StationsManager \<Rightarrow> Buffer option \<Rightarrow> 'w world \<Rightarrow> (error + unit) \<times> 'w world" where
  "send_buffer self buffer s =
     (if buffer = None then (Inl AssertionError, s)
      else post_each self (the buffer) s)"

text \<open>
  \<open>isinstance(limit, int)\<close>: an \<open>int\<close>, or a \<open>bool\<close>, which is a subclass of \<open>int\<close> with
  the values 0 and 1. \<open>int_of\<close> is the integer such a value compares as.
\<close>

fun isinstance_int :: "pyval \<Rightarrow> bool" where
  "isinstance_int (PInt i) = True"
| "isinstance_int (PBool b) = True"
| "isinstance_int v = False"

fun int_of :: "pyval \<Rightarrow> int" where
  "int_of (PInt i) = i"
| "int_of (PBool b) = (if b then 1 else 0)"
| "int_of v = 0"

definition timestamp_message :: string where
  "timestamp_message =
     ''End timestamp can'' @ CHR 0x27 # ''t be earlier than begin timestamp''"

definition query ::
  "('w, 'am) StationsManager \<Rightarrow> string option \<Rightarrow> string option \<Rightarrow> int option \<Rightarrow> int option
     \<Rightarrow> pyval \<Rightarrow> (string \<times> pyval) list" where
  "query self station_id aggregated_on from_timestamp to_timestamp limit =
     [(''appid'', PStr (API_key self)),
      (''station_id'', opt_str station_id),
      (''type'', opt_str aggregated_on),
      (''from'', PInt (the from_timestamp)),
      (''to'', PInt (the to_timestamp))]
     @ (if limit \<noteq> PNone then [(''limit'', limit)] else [])"

definition get_measurements ::
  "('w, 'am) StationsManager \<Rightarrow> string option \<Rightarrow> string option \<Rightarrow> int option \<Rightarrow> int option
     \<Rightarrow> pyval \<Rightarrow> 'w world \<Rightarrow> (error + 'am list) \<times> 'w world" where
  "get_measurements self station_id aggregated_on from_timestamp to_timestamp limit s =
     (if station_id = None then (Inl AssertionError, s)
      else if aggregated_on = None then (Inl AssertionError, s)
      else if from_timestamp = None then (Inl AssertionError, s)
      else if \<not> the from_timestamp > 0 then (Inl AssertionError, s)
      else if to_timestamp = None then (Inl AssertionError, s)
      else if \<not> the to_timestamp > 0 then (Inl AssertionError, s)
      else if the to_timestamp < the from_timestamp then (Inl (ValueError timestamp_message), s)
      else if limit \<noteq> PNone \<and> \<not> isinstance_int limit then (Inl AssertionError, s)
      else if limit \<noteq> PNone \<and> \<not> int_of limit \<ge> 0 then (Inl AssertionError, s)
      else
        (case get_json (http_client self) measurements_url
                (query self station_id aggregated_on from_timestamp to_timestamp limit)
                json_headers s of
           (Inl e, s') \<Rightarrow> (Inl e, s')
         | (Inr (status, data), s') \<Rightarrow>
             (case py_iter data of
                Inl e \<Rightarrow> (Inl e, s')
              | Inr items \<Rightarrow> (parse_each (aggregated_measurements_parser self) items, s'))))"

subsection \<open>What the network sees\<close>

text \<open>
  The requests a call of the manager adds to the record of a world, and the requests the
  operations build, named to state the theorems.
\<close>

definition issued :: "'w world \<Rightarrow> 'w world \<Rightarrow> request list" where
  "issued s s' = drop (length (calls s)) (calls s')"

definition authenticated :: "('w, 'am) StationsManager \<Rightarrow> request \<Rightarrow> bool" where
  "authenticated self r = (map_of (r_params r) ''appid'' = Some (PStr (API_key self)))"

definition authenticated_since :: "('w, 'am) StationsManager \<Rightarrow> 'w world \<Rightarrow> 'w world \<Rightarrow> bool" where
  "authenticated_since self s s' =
     (take (length (calls s)) (calls s') = calls s \<and> list_all (authenticated self) (issued s s'))"

definition measurement_request :: "('w, 'am) StationsManager \<Rightarrow> Measurement \<Rightarrow> request" where
  "measurement_request self m =
     \<lparr>r_method = POST, r_url = measurements_url, r_params = [(''appid'', PStr (API_key self))],
      r_data = Some (to_dict m), r_headers = [(''Content-Type'', ''application/json'')]\<rparr>"

definition stations_request :: "('w, 'am) StationsManager \<Rightarrow> request" where
  "stations_request self =
     \<lparr>r_method = GET, r_url = stations_url, r_params = [(''appid'', PStr (API_key self))],
      r_data = None, r_headers = [(''Content-Type'', ''application/json'')]\<rparr>"

definition create_request ::
  "('w, 'am) StationsManager \<Rightarrow> string \<Rightarrow> string \<Rightarrow> pyfloat \<Rightarrow> pyfloat \<Rightarrow> pyfloat option
     \<Rightarrow> request" where
  "create_request self external_id name lat lon alt =
     \<lparr>r_method = POST, r_url = stations_url, r_params = [(''appid'', PStr (API_key self))],
      r_data = Some (PDict [(''external_id'', PStr external_id), (''name'', PStr name),
                 (''lat'', PFloat lat), (''lon'', PFloat lon),
                 (''alt'', case alt of None \<Rightarrow> PNone | Some a \<Rightarrow> PFloat a)]),
      r_headers = [(''Content-Type'', ''application/json'')]\<rparr>"

definition update_request :: "('w, 'am) StationsManager \<Rightarrow> Station \<Rightarrow> request" where
  "update_request self station =
     \<lparr>r_method = PUT, r_url = stations_url @ ''/'' @ the (s_id station),
      r_params = [(''appid'', PStr (API_key self))],
      r_data = Some (station_body (s_external_id station) (s_name station) (s_lat station)
                 (s_lon station) (s_alt station)),
      r_headers = [(''Content-Type'', ''application/json'')]\<rparr>"

definition delete_request :: "('w, 'am) StationsManager \<Rightarrow> Station \<Rightarrow> request" where
  "delete_request self station =
     \<lparr>r_method = DELETE, r_url = stations_url @ ''/'' @ the (s_id station),
      r_params = [(''appid'', PStr (API_key self))],
      r_data = None,
      r_headers = [(''Content-Type'', ''application/json'')]\<rparr>"

definition measurements_request ::
  "('w, 'am) StationsManager \<Rightarrow> string \<Rightarrow> string \<Rightarrow> int \<Rightarrow> int \<Rightarrow> pyval \<Rightarrow> request" where
  "measurements_request self station_id aggregated_on from_timestamp to_timestamp limit =
     \<lparr>r_method = GET, r_url = measurements_url,
      r_params = [(''appid'', PStr (API_key self)), (''station_id'', PStr station_id),
                  (''type'', PStr aggregated_on), (''from'', PInt from_timestamp),
                  (''to'', PInt to_timestamp)]
                 @ (if limit = PNone then [] else [(''limit'', limit)]),
      r_data = None,
      r_headers = [(''Content-Type'', ''application/json'')]\<rparr>"

text \<open>
  A float is outside the interval from \<open>lo\<close> to \<open>hi\<close> when it is a number, finite or
  infinite, below \<open>lo\<close> or above \<open>hi\<close>; it is negative when it is a number below 0. NaN,
  which is not a number, is neither.
\<close>

fun outside :: "real \<Rightarrow> real \<Rightarrow> pyfloat \<Rightarrow> bool" where
  "outside lo hi (Finite x) = (x < lo \<or> hi < x)"
| "outside lo hi Inf = True"
| "outside lo hi NegInf = True"
| "outside lo hi NaN = False"

fun negative :: "pyfloat \<Rightarrow> bool" where
  "negative (Finite x) = (x < 0)"
| "negative NegInf = True"
| "negative Inf = False"
| "negative NaN = False"

text \<open>
  The behaviour of the network on a sequence of requests served one after the other:
  \<open>accepts\<close> says that none of them raises, \<open>after\<close> is the state of the network once
  they have all been served.
\<close>

fun accepts :: "'w transport \<Rightarrow> request list \<Rightarrow> 'w \<Rightarrow> bool" where
  "accepts t [] w = True"
| "accepts t (r # rs) w = (case t r w of (Inl e, w') \<Rightarrow> False | (Inr x, w') \<Rightarrow> accepts t rs w')"

fun after :: "'w transport \<Rightarrow> request list \<Rightarrow> 'w \<Rightarrow> 'w" where
  "after t [] w = w"
| "after t (r # rs) w = after t rs (snd (t r w))"

subsection \<open>Test doubles\<close>

text \<open>
  A transport that counts the requests it has served, answers \<open>(200, body)\<close> and raises on
  the request number \<open>k\<close> (counted from 0); and a station parser that reads the field
  \<open>id\<close> of a dict and raises when there is none.
\<close>

definition fail_at :: "nat \<Rightarrow> pyval \<Rightarrow> nat transport" where
  "fail_at k body r w =
     (if w = k then Inl (OtherError ''unreachable'') else Inr (200, body), Suc w)"

definition never :: nat where
  "never = 1000"

definition stub :: "string \<Rightarrow> Station" where
  "stub i =
     \<lparr>s_id = Some i, s_external_id = None, s_name = None, s_lat = None, s_lon = None,
      s_alt = None\<rparr>"

definition id_parser :: "pyval \<Rightarrow> error + Station" where
  "id_parser v =
     (case v of
        PDict kvs \<Rightarrow>
          (case map_of kvs ''id'' of
             Some (PStr i) \<Rightarrow> Inr (stub i)
           | _ \<Rightarrow> Inl (OtherError ''ParseResponseError''))
      | _ \<Rightarrow> Inl (OtherError ''ParseResponseError''))"

definition manager :: "nat transport \<Rightarrow> (nat, pyval) StationsManager" where
  "manager t =
     \<lparr>API_key = ''secret'', stations_parser = id_parser,
      aggregated_measurements_parser = Inr, http_client = t\<rparr>"

definition w0 :: "nat world" where
  "w0 = \<lparr>calls = [], net = 0\<rparr>"

definition msmt :: "string option \<Rightarrow> int \<Rightarrow> Measurement" where
  "msmt sid ts = \<lparr>m_station_id = sid, m_timestamp = ts, m_readings = [(''temperature'', PInt 21)]\<rparr>"

definition station :: "string option \<Rightarrow> Station" where
  "station i =
     \<lparr>s_id = i, s_external_id = Some ''ext'', s_name = Some ''roof'', s_lat = Some (Finite 45),
      s_lon = Some (Finite 9), s_alt = None\<rparr>"

subsection \<open>Lemmas on the HTTP client and on the loop of posts\<close>

lemma http_call_calls: "calls (snd (http_call t r s)) = calls s @ [r]"
  by (simp add: http_call_def split: prod.splits)

lemma http_call_fst: "fst (http_call t r s) = fst (t r (net s))"
  by (simp add: http_call_def split: prod.splits)

lemma http_call_net: "net (snd (http_call t r s)) = snd (t r (net s))"
  by (simp add: http_call_def split: prod.splits)

lemma post_measurement_eq:
  "post_measurement self m s = http_call (http_client self) (measurement_request self m) s"
  by (simp add: post_measurement_def post_def measurement_request_def appid_def json_headers_def)

lemma post_each_append:
  "post_each self (pre @ rest) s =
     (case post_each self pre s of (Inl e, s') \<Rightarrow> (Inl e, s') | (Inr u, s') \<Rightarrow> post_each self rest s')"
  by (induction pre arbitrary: s) (auto split: prod.splits sum.splits)

lemma post_each_accepts:
  "accepts (http_client self) (map (measurement_request self) ms) (net s) \<Longrightarrow>
   fst (post_each self ms s) = Inr () \<and>
   calls (snd (post_each self ms s)) = calls s @ map (measurement_request self) ms \<and>
   net (snd (post_each self ms s)) = after (http_client self) (map (measurement_request self) ms) (net s)"
proof (induction ms arbitrary: s)
  case Nil
  then show ?case by simp
next
  case (Cons m ms)
  obtain res s' where call: "http_call (http_client self) (measurement_request self m) s = (res, s')"
    by (cases "http_call (http_client self) (measurement_request self m) s")
  have res: "res = fst (http_client self (measurement_request self m) (net s))"
    using http_call_fst [of "http_client self" "measurement_request self m" s] call by simp
  have net': "net s' = snd (http_client self (measurement_request self m) (net s))"
    using http_call_net [of "http_client self" "measurement_request self m" s] call by simp
  have calls': "calls s' = calls s @ [measurement_request self m]"
    using http_call_calls [of "http_client self" "measurement_request self m" s] call by simp
  from Cons.prems obtain x where ok: "res = Inr x"
    and rest: "accepts (http_client self) (map (measurement_request self) ms) (net s')"
    by (auto simp: res net' split: prod.splits sum.splits)
  show ?case
    using Cons.IH [OF rest] call ok calls' net'
    by (simp add: post_measurement_eq split: prod.splits)
qed

lemma post_each_first_failure:
  assumes "accepts (http_client self) (map (measurement_request self) pre) (net s)"
    and "fst (http_client self (measurement_request self m)
               (after (http_client self) (map (measurement_request self) pre) (net s))) = Inl e"
  shows "fst (post_each self (pre @ m # rest) s) = Inl e \<and>
         calls (snd (post_each self (pre @ m # rest) s))
           = calls s @ map (measurement_request self) pre @ [measurement_request self m]"
proof -
  let ?s1 = "snd (post_each self pre s)"
  have pre: "fst (post_each self pre s) = Inr ()"
    "calls ?s1 = calls s @ map (measurement_request self) pre"
    "net ?s1 = after (http_client self) (map (measurement_request self) pre) (net s)"
    using post_each_accepts [OF assms(1)] by simp_all
  have step: "post_each self (m # rest) ?s1 = (Inl e, snd (http_call (http_client self) (measurement_request self m) ?s1))"
    using assms(2) http_call_fst [of "http_client self" "measurement_request self m" ?s1] pre(3)
    by (cases "http_call (http_client self) (measurement_request self m) ?s1")
       (simp add: post_measurement_eq)
  have "post_each self (pre @ m # rest) s = post_each self (m # rest) ?s1"
    using pre(1) by (cases "post_each self pre s") (simp add: post_each_append)
  then show ?thesis
    using step pre(2) by (simp add: http_call_calls)
qed

lemma post_each_calls_prefix:
  "\<exists>k \<le> length ms. calls (snd (post_each self ms s)) = calls s @ map (measurement_request self) (take k ms)"
proof (induction ms arbitrary: s)
  case Nil
  then show ?case by simp
next
  case (Cons m ms)
  obtain res s' where call: "http_call (http_client self) (measurement_request self m) s = (res, s')"
    by (cases "http_call (http_client self) (measurement_request self m) s")
  have calls': "calls s' = calls s @ [measurement_request self m]"
    using http_call_calls [of "http_client self" "measurement_request self m" s] call by simp
  show ?case
  proof (cases res)
    case (Inl e)
    then have "calls (snd (post_each self (m # ms) s)) = calls s @ map (measurement_request self) (take 1 (m # ms))"
      using call calls' by (simp add: post_measurement_eq)
    then show ?thesis by (intro exI [of _ 1]) simp
  next
    case (Inr x)
    from Cons.IH [of s'] obtain k where k: "k \<le> length ms"
      "calls (snd (post_each self ms s')) = calls s' @ map (measurement_request self) (take k ms)"
      by blast
    have "calls (snd (post_each self (m # ms) s)) = calls s @ map (measurement_request self) (take (Suc k) (m # ms))"
      using call Inr k(2) calls' by (simp add: post_measurement_eq split: prod.splits)
    then show ?thesis using k(1) by (intro exI [of _ "Suc k"]) simp
  qed
qed

subsection \<open>Sending many measurements: the check of the station ids\<close>

text \<open>
  C2. For every list of measurements in which at least one item has no station_id,
  \<open>send_measurements\<close> raises \<open>AssertionError\<close> and leaves the world as it was: the
  station ids of all the items are checked before the loop, so nothing is posted, for any
  item of the list.
\<close>

theorem send_measurements_checks_all_first:
  "m \<in> set ms \<Longrightarrow> m_station_id m = None \<Longrightarrow>
   send_measurements self (Some ms) s = (Inl AssertionError, s)"
  by (auto simp: send_measurements_def list_all_iff)

text \<open>The theorem at a list of three measurements whose second has no station_id.\<close>

theorem send_measurements_checks_all_first_witness:
  "msmt None 2 \<in> set [msmt (Some ''a'') 1, msmt None 2, msmt (Some ''b'') 3] \<and>
   m_station_id (msmt None 2) = None \<and>
   send_measurements (manager (fail_at never PNone))
     (Some [msmt (Some ''a'') 1, msmt None 2, msmt (Some ''b'') 3]) w0 = (Inl AssertionError, w0) \<and>
   calls w0 = []"
  using send_measurements_checks_all_first
    [of "msmt None 2" "[msmt (Some ''a'') 1, msmt None 2, msmt (Some ''b'') 3]"
        "manager (fail_at never PNone)" w0]
  by (simp add: msmt_def w0_def)

subsection \<open>Creating a station: the range checks\<close>

lemma outside_iff: "(float_lt x (Finite lo) \<or> float_gt x (Finite hi)) = outside lo hi x"
  by (cases x) (simp_all add: float_gt_def)

lemma negative_iff: "float_lt x (Finite 0) = negative x"
  by (cases x) simp_all

text \<open>
  C1 as it is written fails: with a longitude of 200 and no external_id, the call raises
  \<open>AssertionError\<close>, not \<open>ValueError\<close>, since the four assertions on \<open>external_id\<close>,
  \<open>name\<close>, \<open>lon\<close> and \<open>lat\<close> come before the range checks.
\<close>

theorem create_station_assertion_counterexample:
  "outside (- 180) 180 (Finite 200) \<and>
   create_station (manager (fail_at never PNone)) None (Some ''roof'') (Some (Finite 0))
     (Some (Finite 200)) None w0 = (Inl AssertionError, w0) \<and>
   Inl AssertionError \<noteq> (Inl (ValueError lon_message) :: error + Station)"
  by (simp add: create_station_def)

text \<open>
  C1, amended. A call of \<open>create_station\<close> in which \<open>external_id\<close>, \<open>name\<close>, \<open>lat\<close> or
  \<open>lon\<close> is \<open>None\<close> raises \<open>AssertionError\<close>. A call in which none of them is, and in
  which the longitude is a number (not NaN) outside [-180, 180], or the latitude is a number
  outside [-90, 90], or the altitude is given and is a number below 0, raises \<open>ValueError\<close>,
  with the message of the first check that fails, in the order longitude, latitude,
  altitude. In both cases the world is left as it was: no request has been issued. With a
  finite latitude in [-90, 90] and a finite longitude in [-180, 180], the bounds included,
  and an altitude that is absent or finite and at least 0, no range check fails: the
  request that creates the station is issued.
\<close>

theorem create_station_range:
  "(external_id = None \<or> name = None \<or> lat = None \<or> lon = None \<longrightarrow>
      create_station self external_id name lat lon alt s = (Inl AssertionError, s)) \<and>
   (external_id \<noteq> None \<and> name \<noteq> None \<and> lat = Some la \<and> lon = Some lo \<and>
    (outside (- 180) 180 lo \<or> outside (- 90) 90 la \<or> (\<exists>a. alt = Some a \<and> negative a)) \<longrightarrow>
      create_station self external_id name lat lon alt s =
        (Inl (ValueError (if outside (- 180) 180 lo then lon_message
                          else if outside (- 90) 90 la then lat_message else alt_message)), s)) \<and>
   (- 90 \<le> y \<and> y \<le> 90 \<and> - 180 \<le> x \<and> x \<le> 180 \<and>
    (alt' = None \<or> (\<exists>a. 0 \<le> a \<and> alt' = Some (Finite a))) \<longrightarrow>
      calls (snd (create_station self (Some ext) (Some nm) (Some (Finite y)) (Some (Finite x)) alt' s))
        = calls s @ [create_request self ext nm (Finite y) (Finite x) alt'])"
proof (intro conjI impI)
  assume "external_id = None \<or> name = None \<or> lat = None \<or> lon = None"
  then show "create_station self external_id name lat lon alt s = (Inl AssertionError, s)"
    by (auto simp: create_station_def)
next
  assume "external_id \<noteq> None \<and> name \<noteq> None \<and> lat = Some la \<and> lon = Some lo \<and>
    (outside (- 180) 180 lo \<or> outside (- 90) 90 la \<or> (\<exists>a. alt = Some a \<and> negative a))"
  then show "create_station self external_id name lat lon alt s =
        (Inl (ValueError (if outside (- 180) 180 lo then lon_message
                          else if outside (- 90) 90 la then lat_message else alt_message)), s)"
    by (auto simp: create_station_def outside_iff negative_iff)
next
  assume b: "- 90 \<le> y \<and> y \<le> 90 \<and> - 180 \<le> x \<and> x \<le> 180 \<and>
    (alt' = None \<or> (\<exists>a. 0 \<le> a \<and> alt' = Some (Finite a)))"
  have body: "station_body (Some ext) (Some nm) (Some (Finite y)) (Some (Finite x)) alt'
     = PDict [(''external_id'', PStr ext), (''name'', PStr nm), (''lat'', PFloat (Finite y)),
              (''lon'', PFloat (Finite x)),
              (''alt'', case alt' of None \<Rightarrow> PNone | Some a \<Rightarrow> PFloat a)]"
    by (simp add: station_body_def opt_str_def opt_num_def)
  have "create_station self (Some ext) (Some nm) (Some (Finite y)) (Some (Finite x)) alt' s
          = (case http_call (http_client self)
                    (create_request self ext nm (Finite y) (Finite x) alt') s of
               (Inl e, s') \<Rightarrow> (Inl e, s')
             | (Inr (status, payload), s') \<Rightarrow> (stations_parser self payload, s'))"
    using b
    by (auto simp: create_station_def float_gt_def body create_request_def post_def
        appid_def json_headers_def)
  then have "snd (create_station self (Some ext) (Some nm) (Some (Finite y)) (Some (Finite x)) alt' s)
          = snd (http_call (http_client self)
                   (create_request self ext nm (Finite y) (Finite x) alt') s)"
    by (simp split: prod.splits sum.splits)
  then show "calls (snd (create_station self (Some ext) (Some nm) (Some (Finite y)) (Some (Finite x))
        alt' s)) = calls s @ [create_request self ext nm (Finite y) (Finite x) alt']"
    by (simp add: http_call_calls)
qed

text \<open>
  The theorem at a longitude of 200, at a latitude of 100, at an altitude of -1, at a
  missing external_id, and at the corners (-90, 180, 0) and (90, -180, 0).
\<close>

theorem create_station_range_witness:
  "create_station (manager (fail_at never PNone)) (Some ''ext'') (Some ''roof'') (Some (Finite 100))
     (Some (Finite 200)) (Some (Finite (- 1))) w0 = (Inl (ValueError lon_message), w0) \<and>
   create_station (manager (fail_at never PNone)) (Some ''ext'') (Some ''roof'') (Some (Finite 100))
     (Some (Finite 9)) (Some (Finite (- 1))) w0 = (Inl (ValueError lat_message), w0) \<and>
   create_station (manager (fail_at never PNone)) (Some ''ext'') (Some ''roof'') (Some (Finite 45))
     (Some (Finite 9)) (Some (Finite (- 1))) w0 = (Inl (ValueError alt_message), w0) \<and>
   create_station (manager (fail_at never PNone)) None (Some ''roof'') (Some (Finite 45))
     (Some (Finite 200)) None w0 = (Inl AssertionError, w0) \<and>
   calls (snd (create_station (manager (fail_at never PNone)) (Some ''ext'') (Some ''roof'')
     (Some (Finite (- 90))) (Some (Finite 180)) (Some (Finite 0)) w0))
     = [create_request (manager (fail_at never PNone)) ''ext'' ''roof'' (Finite (- 90)) (Finite 180)
          (Some (Finite 0))] \<and>
   calls (snd (create_station (manager (fail_at never PNone)) (Some ''ext'') (Some ''roof'')
     (Some (Finite 90)) (Some (Finite (- 180))) (Some (Finite 0)) w0))
     = [create_request (manager (fail_at never PNone)) ''ext'' ''roof'' (Finite 90) (Finite (- 180))
          (Some (Finite 0))]"
  using create_station_range [where self = "manager (fail_at never PNone)" and s = w0
      and external_id = "Some ''ext''" and name = "Some ''roof''" and lat = "Some (Finite 100)"
      and lon = "Some (Finite 200)" and alt = "Some (Finite (- 1))" and la = "Finite 100"
      and lo = "Finite 200" and y = "- 90" and x = 180 and alt' = "Some (Finite 0)"
      and ext = "''ext''" and nm = "''roof''"]
    create_station_range [where self = "manager (fail_at never PNone)" and s = w0
      and external_id = "Some ''ext''" and name = "Some ''roof''" and lat = "Some (Finite 100)"
      and lon = "Some (Finite 9)" and alt = "Some (Finite (- 1))" and la = "Finite 100"
      and lo = "Finite 9" and y = 90 and x = "- 180" and alt' = "Some (Finite 0)"
      and ext = "''ext''" and nm = "''roof''"]
    create_station_range [where self = "manager (fail_at never PNone)" and s = w0
      and external_id = "Some ''ext''" and name = "Some ''roof''" and lat = "Some (Finite 45)"
      and lon = "Some (Finite 9)" and alt = "Some (Finite (- 1))" and la = "Finite 45"
      and lo = "Finite 9" and y = 90 and x = "- 180" and alt' = "Some (Finite 0)"
      and ext = "''ext''" and nm = "''roof''"]
    create_station_range [where self = "manager (fail_at never PNone)" and s = w0
      and external_id = "None" and name = "Some ''roof''" and lat = "Some (Finite 45)"
      and lon = "Some (Finite 200)" and alt = "None" and la = "Finite 45"
      and lo = "Finite 200" and y = 90 and x = "- 180" and alt' = "Some (Finite 0)"
      and ext = "''ext''" and nm = "''roof''"]
  by (simp add: w0_def)

subsection \<open>Sending a buffer\<close>

lemma send_buffer_eq: "send_buffer self (Some buffer) s = post_each self buffer s"
  by (simp add: send_buffer_def)

text \<open>
  C3 as it is written fails: when the HTTP client raises on the first post of a buffer of
  two measurements, the exception leaves the loop and one request has been issued, not two.
\<close>

theorem send_buffer_failure_counterexample:
  "length [msmt (Some ''a'') 1, msmt (Some ''a'') 2] = 2 \<and>
   send_buffer (manager (fail_at 0 PNone)) (Some [msmt (Some ''a'') 1, msmt (Some ''a'') 2]) w0
     = (Inl (OtherError ''unreachable''),
        \<lparr>calls = [measurement_request (manager (fail_at 0 PNone)) (msmt (Some ''a'') 1)], net = 1\<rparr>) \<and>
   length (issued w0 (snd (send_buffer (manager (fail_at 0 PNone))
     (Some [msmt (Some ''a'') 1, msmt (Some ''a'') 2]) w0))) = 1"
  by (simp add: send_buffer_def post_measurement_eq http_call_def manager_def fail_at_def w0_def
      issued_def)

text \<open>
  C3, amended. For every buffer whose posts the HTTP client serves without raising,
  \<open>send_buffer\<close> returns \<open>None\<close> having issued exactly one POST request per measurement
  of the buffer, \<open>len(buffer)\<close> requests in all, in the order of the buffer, and the body
  of the i-th request is \<open>to_dict\<close> of the i-th measurement.
\<close>

theorem send_buffer_posts_in_order:
  "accepts (http_client self) (map (measurement_request self) buffer) (net s) \<Longrightarrow>
   fst (send_buffer self (Some buffer) s) = Inr () \<and>
   issued s (snd (send_buffer self (Some buffer) s)) = map (measurement_request self) buffer \<and>
   calls (snd (send_buffer self (Some buffer) s)) = calls s @ issued s (snd (send_buffer self (Some buffer) s)) \<and>
   length (issued s (snd (send_buffer self (Some buffer) s))) = length buffer \<and>
   (\<forall>i < length buffer.
      r_method (issued s (snd (send_buffer self (Some buffer) s)) ! i) = POST \<and>
      r_data (issued s (snd (send_buffer self (Some buffer) s)) ! i) = Some (to_dict (buffer ! i)))"
proof -
  assume acc: "accepts (http_client self) (map (measurement_request self) buffer) (net s)"
  have c: "calls (snd (send_buffer self (Some buffer) s)) = calls s @ map (measurement_request self) buffer"
    and r: "fst (send_buffer self (Some buffer) s) = Inr ()"
    using post_each_accepts [OF acc] by (simp_all add: send_buffer_eq)
  have i: "issued s (snd (send_buffer self (Some buffer) s)) = map (measurement_request self) buffer"
    by (simp add: issued_def c)
  show ?thesis
    using r c by (simp add: i measurement_request_def)
qed

text \<open>The theorem at a buffer of two measurements and a client that never raises.\<close>

theorem send_buffer_posts_in_order_witness:
  "accepts (fail_at never PNone)
     (map (measurement_request (manager (fail_at never PNone))) [msmt (Some ''a'') 1, msmt None 2]) 0 \<and>
   fst (send_buffer (manager (fail_at never PNone)) (Some [msmt (Some ''a'') 1, msmt None 2]) w0) = Inr () \<and>
   issued w0 (snd (send_buffer (manager (fail_at never PNone)) (Some [msmt (Some ''a'') 1, msmt None 2]) w0))
     = [measurement_request (manager (fail_at never PNone)) (msmt (Some ''a'') 1),
        measurement_request (manager (fail_at never PNone)) (msmt None 2)]"
proof -
  have acc: "accepts (http_client (manager (fail_at never PNone)))
     (map (measurement_request (manager (fail_at never PNone))) [msmt (Some ''a'') 1, msmt None 2]) (net w0)"
    by (simp add: manager_def fail_at_def never_def w0_def)
  show ?thesis
    using acc send_buffer_posts_in_order [OF acc] by (simp add: manager_def w0_def)
qed

text \<open>
  C4. \<open>send_buffer\<close> does not check the station ids: for every buffer that holds a
  measurement without station_id, the post of the first measurement of the buffer is
  issued whatever the station ids are; when the HTTP client serves the posts without
  raising, the call returns \<open>None\<close> and the measurement without station_id has been
  posted too. \<open>send_measurements\<close> on the same list raises \<open>AssertionError\<close> and issues
  nothing.
\<close>

theorem send_buffer_no_station_id_check:
  "m \<in> set buffer \<Longrightarrow> m_station_id m = None \<Longrightarrow>
   (\<exists>rs. calls (snd (send_buffer self (Some buffer) s))
           = calls s @ measurement_request self (hd buffer) # rs) \<and>
   (accepts (http_client self) (map (measurement_request self) buffer) (net s) \<longrightarrow>
      fst (send_buffer self (Some buffer) s) = Inr () \<and>
      measurement_request self m \<in> set (issued s (snd (send_buffer self (Some buffer) s)))) \<and>
   send_measurements self (Some buffer) s = (Inl AssertionError, s)"
proof (intro conjI impI)
  assume m: "m \<in> set buffer" and n: "m_station_id m = None"
  then obtain b bs where buf: "buffer = b # bs" by (cases buffer) auto
  obtain k where k: "k \<le> length bs"
    "calls (snd (post_each self bs (snd (http_call (http_client self) (measurement_request self b) s))))
       = calls (snd (http_call (http_client self) (measurement_request self b) s))
         @ map (measurement_request self) (take k bs)"
    using post_each_calls_prefix by blast
  show "\<exists>rs. calls (snd (send_buffer self (Some buffer) s))
           = calls s @ measurement_request self (hd buffer) # rs"
  proof (cases "fst (http_call (http_client self) (measurement_request self b) s)")
    case (Inl e)
    then have "calls (snd (send_buffer self (Some buffer) s)) = calls s @ measurement_request self (hd buffer) # []"
      by (cases "http_call (http_client self) (measurement_request self b) s")
         (use http_call_calls [of "http_client self" "measurement_request self b" s] in
           \<open>simp add: buf send_buffer_eq post_measurement_eq\<close>)
    then show ?thesis by blast
  next
    case (Inr x)
    then have "calls (snd (send_buffer self (Some buffer) s))
        = calls s @ measurement_request self (hd buffer) # map (measurement_request self) (take k bs)"
      using k(2)
      by (cases "http_call (http_client self) (measurement_request self b) s")
         (use http_call_calls [of "http_client self" "measurement_request self b" s] in
           \<open>simp add: buf send_buffer_eq post_measurement_eq split: prod.splits\<close>)
    then show ?thesis by blast
  qed
  show "send_measurements self (Some buffer) s = (Inl AssertionError, s)"
    using m n by (auto simp: send_measurements_def list_all_iff)
  {
    assume acc: "accepts (http_client self) (map (measurement_request self) buffer) (net s)"
    have c: "calls (snd (send_buffer self (Some buffer) s)) = calls s @ map (measurement_request self) buffer"
      using post_each_accepts [OF acc] by (simp add: send_buffer_eq)
    show "fst (send_buffer self (Some buffer) s) = Inr ()"
      using post_each_accepts [OF acc] by (simp add: send_buffer_eq)
    show "measurement_request self m \<in> set (issued s (snd (send_buffer self (Some buffer) s)))"
      using m by (simp add: issued_def c)
  }
qed

text \<open>The theorem at a buffer whose second measurement has no station_id.\<close>

theorem send_buffer_no_station_id_check_witness:
  "msmt None 2 \<in> set [msmt (Some ''a'') 1, msmt None 2] \<and> m_station_id (msmt None 2) = None \<and>
   fst (send_buffer (manager (fail_at never PNone)) (Some [msmt (Some ''a'') 1, msmt None 2]) w0) = Inr () \<and>
   measurement_request (manager (fail_at never PNone)) (msmt None 2)
     \<in> set (issued w0 (snd (send_buffer (manager (fail_at never PNone))
               (Some [msmt (Some ''a'') 1, msmt None 2]) w0))) \<and>
   send_measurements (manager (fail_at never PNone)) (Some [msmt (Some ''a'') 1, msmt None 2]) w0
     = (Inl AssertionError, w0)"
proof -
  have acc: "accepts (http_client (manager (fail_at never PNone)))
     (map (measurement_request (manager (fail_at never PNone))) [msmt (Some ''a'') 1, msmt None 2]) (net w0)"
    by (simp add: manager_def fail_at_def never_def w0_def)
  have mem: "msmt None 2 \<in> set [msmt (Some ''a'') 1, msmt None 2]" by simp
  have nul: "m_station_id (msmt None 2) = None" by (simp add: msmt_def)
  show ?thesis
    using acc mem nul send_buffer_no_station_id_check [OF mem nul, of "manager (fail_at never PNone)" w0]
    by simp
qed

subsection \<open>Reading aggregated measurements: the checks\<close>

text \<open>
  C5 as it is written fails in its last part: with \<open>from_timestamp = 5\<close> and
  \<open>to_timestamp = -1\<close> the end is earlier than the beginning, and the call raises
  \<open>AssertionError\<close>, not \<open>ValueError\<close>, since \<open>assert to_timestamp > 0\<close> comes before
  the comparison of the two timestamps.
\<close>

theorem get_measurements_assertion_counterexample:
  "(- 1 :: int) < 5 \<and>
   get_measurements (manager (fail_at never PNone)) (Some ''st'') (Some ''h'') (Some 5) (Some (- 1))
     PNone w0 = (Inl AssertionError, w0) \<and>
   AssertionError \<noteq> ValueError timestamp_message"
  by (simp add: get_measurements_def)

text \<open>
  C5, amended. A call of \<open>get_measurements\<close> with invalid arguments raises and leaves the
  world as it was: no request has been issued. The error is \<open>AssertionError\<close> when the
  station_id, the granularity or a timestamp is missing or a timestamp is not positive;
  otherwise it is \<open>ValueError\<close> when the end is earlier than the beginning, whatever the
  limit is; otherwise it is \<open>AssertionError\<close> when the limit is given and is not a
  non-negative integer (a \<open>bool\<close> counts as an integer, as \<open>isinstance(limit, int)\<close> says).
\<close>

theorem get_measurements_validation:
  "(station_id = None \<or> aggregated_on = None \<or> from_timestamp = None \<or> to_timestamp = None
      \<or> (\<exists>f. from_timestamp = Some f \<and> f \<le> 0) \<or> (\<exists>t. to_timestamp = Some t \<and> t \<le> 0)
    \<longrightarrow> get_measurements self station_id aggregated_on from_timestamp to_timestamp limit s
          = (Inl AssertionError, s)) \<and>
   (station_id \<noteq> None \<and> aggregated_on \<noteq> None \<and> from_timestamp = Some f' \<and>
    to_timestamp = Some t' \<and> 0 < f' \<and> 0 < t' \<and> t' < f'
    \<longrightarrow> get_measurements self station_id aggregated_on from_timestamp to_timestamp limit s
          = (Inl (ValueError timestamp_message), s)) \<and>
   (station_id \<noteq> None \<and> aggregated_on \<noteq> None \<and> from_timestamp = Some f' \<and>
    to_timestamp = Some t' \<and> 0 < f' \<and> f' \<le> t' \<and>
    limit \<noteq> PNone \<and> \<not> (isinstance_int limit \<and> 0 \<le> int_of limit)
    \<longrightarrow> get_measurements self station_id aggregated_on from_timestamp to_timestamp limit s
          = (Inl AssertionError, s))"
  by (auto simp: get_measurements_def)

text \<open>
  The theorem at an end that is not positive (and earlier than the beginning), at a missing
  station_id, at an end earlier than the beginning (with a negative limit), and at a limit
  that is a float or a negative integer.
\<close>

theorem get_measurements_validation_witness:
  "get_measurements (manager (fail_at never PNone)) (Some ''st'') (Some ''h'') (Some 5) (Some (- 1))
     PNone w0 = (Inl AssertionError, w0) \<and>
   get_measurements (manager (fail_at never PNone)) None (Some ''h'') (Some 3) (Some 5)
     PNone w0 = (Inl AssertionError, w0) \<and>
   get_measurements (manager (fail_at never PNone)) (Some ''st'') (Some ''h'') (Some 5) (Some 3)
     (PInt (- 2)) w0 = (Inl (ValueError timestamp_message), w0) \<and>
   get_measurements (manager (fail_at never PNone)) (Some ''st'') (Some ''h'') (Some 3) (Some 5)
     (PFloat (Finite 2)) w0 = (Inl AssertionError, w0) \<and>
   get_measurements (manager (fail_at never PNone)) (Some ''st'') (Some ''h'') (Some 3) (Some 5)
     (PInt (- 2)) w0 = (Inl AssertionError, w0) \<and>
   calls w0 = []"
  using get_measurements_validation [where self = "manager (fail_at never PNone)" and s = w0
      and station_id = "Some ''st''" and aggregated_on = "Some ''h''" and from_timestamp = "Some 5"
      and to_timestamp = "Some (- 1)" and limit = PNone and f' = 5 and t' = "- 1"]
    get_measurements_validation [where self = "manager (fail_at never PNone)" and s = w0
      and station_id = None and aggregated_on = "Some ''h''" and from_timestamp = "Some 3"
      and to_timestamp = "Some 5" and limit = PNone and f' = 3 and t' = 5]
    get_measurements_validation [where self = "manager (fail_at never PNone)" and s = w0
      and station_id = "Some ''st''" and aggregated_on = "Some ''h''" and from_timestamp = "Some 5"
      and to_timestamp = "Some 3" and limit = "PInt (- 2)" and f' = 5 and t' = 3]
    get_measurements_validation [where self = "manager (fail_at never PNone)" and s = w0
      and station_id = "Some ''st''" and aggregated_on = "Some ''h''" and from_timestamp = "Some 3"
      and to_timestamp = "Some 5" and limit = "PFloat (Finite 2)" and f' = 3 and t' = 5]
    get_measurements_validation [where self = "manager (fail_at never PNone)" and s = w0
      and station_id = "Some ''st''" and aggregated_on = "Some ''h''" and from_timestamp = "Some 3"
      and to_timestamp = "Some 5" and limit = "PInt (- 2)" and f' = 3 and t' = 5]
  by (simp add: w0_def)

text \<open>
  C10. \<open>get_measurements\<close> does not look at the value of the granularity: for every string
  \<open>g\<close>, when the station_id is given, the timestamps are positive and ordered and the
  limit is absent or a non-negative integer, the request is issued, and its query parameter
  \<open>type\<close> is \<open>g\<close> itself. Only a granularity of \<open>None\<close> is refused.
\<close>

theorem get_measurements_granularity_unchecked:
  "0 < f \<Longrightarrow> f \<le> t \<Longrightarrow> limit = PNone \<or> (isinstance_int limit \<and> 0 \<le> int_of limit) \<Longrightarrow>
   calls (snd (get_measurements self (Some sid) (Some g) (Some f) (Some t) limit s))
     = calls s @ [measurements_request self sid g f t limit] \<and>
   map_of (r_params (measurements_request self sid g f t limit)) ''type'' = Some (PStr g)"
proof -
  assume a: "0 < f" "f \<le> t" "limit = PNone \<or> (isinstance_int limit \<and> 0 \<le> int_of limit)"
  have "snd (get_measurements self (Some sid) (Some g) (Some f) (Some t) limit s)
          = snd (http_call (http_client self) (measurements_request self sid g f t limit) s)"
    using a by (auto simp: get_measurements_def get_json_def query_def measurements_request_def
        json_headers_def opt_str_def split: prod.splits sum.splits)
  then show ?thesis
    by (simp add: http_call_calls) (simp add: measurements_request_def)
qed

text \<open>The theorem at the granularity \<open>fortnight\<close>; a granularity of \<open>None\<close> is refused.\<close>

theorem get_measurements_granularity_unchecked_witness:
  "(0::int) < 3 \<and> (3::int) \<le> 5 \<and>
   calls (snd (get_measurements (manager (fail_at never (PList []))) (Some ''st'') (Some ''fortnight'')
     (Some 3) (Some 5) PNone w0))
     = [measurements_request (manager (fail_at never (PList []))) ''st'' ''fortnight'' 3 5 PNone] \<and>
   map_of (r_params (measurements_request (manager (fail_at never (PList []))) ''st'' ''fortnight'' 3 5
     PNone)) ''type'' = Some (PStr ''fortnight'') \<and>
   get_measurements (manager (fail_at never (PList []))) (Some ''st'') None (Some 3) (Some 5) PNone w0
     = (Inl AssertionError, w0)"
  using get_measurements_granularity_unchecked [where self = "manager (fail_at never (PList []))"
      and s = w0 and sid = "''st''" and g = "''fortnight''" and f = 3 and t = 5 and limit = PNone]
  by (simp add: w0_def get_measurements_def)

subsection \<open>Listing the stations\<close>

lemma parse_each_all:
  "map parse_dict items = map Inr vs \<Longrightarrow> parse_each parse_dict items = Inr vs"
proof (induction items arbitrary: vs)
  case Nil
  then show ?case by simp
next
  case (Cons item rest)
  then obtain v vs' where vs: "vs = v # vs'" and v: "parse_dict item = Inr v"
    and rest: "map parse_dict rest = map Inr vs'"
    by (cases vs) auto
  show ?case
    using Cons.IH [OF rest] v by (simp add: vs)
qed

lemma get_stations_call:
  "get_stations self s =
     (case http_call (http_client self) (stations_request self) s of
        (Inl e, s') \<Rightarrow> (Inl e, s')
      | (Inr (status, data), s') \<Rightarrow>
          (case py_iter data of
             Inl e \<Rightarrow> (Inl e, s')
           | Inr items \<Rightarrow> (parse_each (stations_parser self) items, s')))"
  by (simp add: get_stations_def get_json_def stations_request_def appid_def json_headers_def)

text \<open>
  C8 as it is written fails: when the HTTP client answers with a list of two items and the
  station parser raises on the second, which has no \<open>id\<close>, the exception leaves the list
  comprehension and \<open>get_stations\<close> raises it: no list is returned.
\<close>

theorem get_stations_parse_error_counterexample:
  "fst (http_client
          (manager (fail_at never (PList [PDict [(''id'', PStr ''a'')], PDict [(''name'', PStr ''b'')]])))
          (stations_request
             (manager (fail_at never (PList [PDict [(''id'', PStr ''a'')], PDict [(''name'', PStr ''b'')]]))))
          (net w0))
     = Inr (200, PList [PDict [(''id'', PStr ''a'')], PDict [(''name'', PStr ''b'')]]) \<and>
   fst (get_stations
          (manager (fail_at never (PList [PDict [(''id'', PStr ''a'')], PDict [(''name'', PStr ''b'')]])))
          w0)
     = Inl (OtherError ''ParseResponseError'')"
  by (simp add: get_stations_call http_call_def manager_def fail_at_def never_def w0_def
      id_parser_def)

text \<open>
  C8, amended. When the HTTP client answers the request of \<open>get_stations\<close> with a list and
  the station parser parses every item of it, \<open>get_stations\<close> returns the list of the
  parsed stations: one station per item, in the order of the answer, the i-th station
  being what the parser makes of the i-th item.
\<close>

theorem get_stations_parses_each_item:
  "fst (http_client self (stations_request self) (net s)) = Inr (status, PList items) \<Longrightarrow>
   map (stations_parser self) items = map Inr stations \<Longrightarrow>
   fst (get_stations self s) = Inr stations \<and>
   length stations = length items \<and>
   (\<forall>i < length items. stations_parser self (items ! i) = Inr (stations ! i))"
proof -
  assume a: "fst (http_client self (stations_request self) (net s)) = Inr (status, PList items)"
    and p: "map (stations_parser self) items = map Inr stations"
  have "fst (http_call (http_client self) (stations_request self) s) = Inr (status, PList items)"
    using a by (simp add: http_call_fst)
  then have r: "fst (get_stations self s) = Inr stations"
    by (cases "http_call (http_client self) (stations_request self) s")
       (simp add: get_stations_call parse_each_all [OF p])
  have l: "length stations = length items"
    using p by (metis length_map)
  have "stations_parser self (items ! i) = Inr (stations ! i)" if "i < length items" for i
    using that p l by (metis nth_map)
  then show ?thesis
    using r l by simp
qed

text \<open>The theorem at an answer of two stations.\<close>

theorem get_stations_parses_each_item_witness:
  "fst (http_client (manager (fail_at never (PList [PDict [(''id'', PStr ''a'')], PDict [(''id'', PStr ''b'')]])))
         (stations_request (manager (fail_at never (PList [PDict [(''id'', PStr ''a'')], PDict [(''id'', PStr ''b'')]]))))
         (net w0))
     = Inr (200, PList [PDict [(''id'', PStr ''a'')], PDict [(''id'', PStr ''b'')]]) \<and>
   map (stations_parser (manager (fail_at never (PList [PDict [(''id'', PStr ''a'')], PDict [(''id'', PStr ''b'')]]))))
     [PDict [(''id'', PStr ''a'')], PDict [(''id'', PStr ''b'')]] = map Inr [stub ''a'', stub ''b''] \<and>
   fst (get_stations
      (manager (fail_at never (PList [PDict [(''id'', PStr ''a'')], PDict [(''id'', PStr ''b'')]]))) w0)
     = Inr [stub ''a'', stub ''b'']"
proof -
  let ?M = "manager (fail_at never (PList [PDict [(''id'', PStr ''a'')], PDict [(''id'', PStr ''b'')]]))"
  have h: "fst (http_client ?M (stations_request ?M) (net w0))
     = Inr (200, PList [PDict [(''id'', PStr ''a'')], PDict [(''id'', PStr ''b'')]])"
    by (simp add: manager_def fail_at_def never_def w0_def)
  have p: "map (stations_parser ?M) [PDict [(''id'', PStr ''a'')], PDict [(''id'', PStr ''b'')]]
     = map Inr [stub ''a'', stub ''b'']"
    by (simp add: manager_def id_parser_def)
  show ?thesis
    using h p get_stations_parses_each_item [OF h p] by simp
qed

subsection \<open>Sending many measurements: the loop\<close>

lemma send_measurements_eq:
  "list_all (\<lambda>m. m_station_id m \<noteq> None) ms \<Longrightarrow>
   send_measurements self (Some ms) s = post_each self ms s"
  by (simp add: send_measurements_def)

lemma issued_append: "calls s' = calls s @ rs \<Longrightarrow> issued s s' = rs"
  by (simp add: issued_def)

text \<open>
  C6. For a list of measurements that all have a station_id: when the HTTP client serves
  the posts without raising, \<open>send_measurements\<close> returns \<open>None\<close> having issued one post
  per measurement, in the order of the list; when the client serves the posts of the
  measurements \<open>pre\<close> and raises \<open>e\<close> on the post of the next measurement \<open>m\<close>,
  \<open>send_measurements\<close> raises that same \<open>e\<close>, having issued the posts of \<open>pre\<close> and of
  \<open>m\<close> and none for the measurements after \<open>m\<close>. In every case the requests issued are
  the posts of a prefix of the list.
\<close>

theorem send_measurements_in_order:
  "list_all (\<lambda>m. m_station_id m \<noteq> None) ms \<Longrightarrow>
   (accepts (http_client self) (map (measurement_request self) ms) (net s) \<longrightarrow>
      fst (send_measurements self (Some ms) s) = Inr () \<and>
      issued s (snd (send_measurements self (Some ms) s)) = map (measurement_request self) ms) \<and>
   (ms = pre @ m # rest \<and>
    accepts (http_client self) (map (measurement_request self) pre) (net s) \<and>
    fst (http_client self (measurement_request self m)
          (after (http_client self) (map (measurement_request self) pre) (net s))) = Inl e \<longrightarrow>
      fst (send_measurements self (Some ms) s) = Inl e \<and>
      issued s (snd (send_measurements self (Some ms) s))
        = map (measurement_request self) pre @ [measurement_request self m]) \<and>
   (\<exists>k \<le> length ms. calls (snd (send_measurements self (Some ms) s))
        = calls s @ map (measurement_request self) (take k ms))"
proof (intro conjI impI)
  assume v: "list_all (\<lambda>m. m_station_id m \<noteq> None) ms"
  note eq = send_measurements_eq [OF v]
  show "\<exists>k \<le> length ms. calls (snd (send_measurements self (Some ms) s))
        = calls s @ map (measurement_request self) (take k ms)"
    using post_each_calls_prefix [of ms self s] by (simp add: eq)
  {
    assume acc: "accepts (http_client self) (map (measurement_request self) ms) (net s)"
    show "fst (send_measurements self (Some ms) s) = Inr ()"
      using post_each_accepts [OF acc] by (simp add: eq)
    show "issued s (snd (send_measurements self (Some ms) s)) = map (measurement_request self) ms"
      using post_each_accepts [OF acc] by (simp add: eq issued_append)
  }
  {
    assume f: "ms = pre @ m # rest \<and>
      accepts (http_client self) (map (measurement_request self) pre) (net s) \<and>
      fst (http_client self (measurement_request self m)
            (after (http_client self) (map (measurement_request self) pre) (net s))) = Inl e"
    then have ms: "ms = pre @ m # rest"
      and acc: "accepts (http_client self) (map (measurement_request self) pre) (net s)"
      and fails: "fst (http_client self (measurement_request self m)
            (after (http_client self) (map (measurement_request self) pre) (net s))) = Inl e"
      by simp_all
    note ff = post_each_first_failure [OF acc fails, of rest]
    show "fst (send_measurements self (Some ms) s) = Inl e"
      using ff by (simp add: eq) (simp add: ms)
    show "issued s (snd (send_measurements self (Some ms) s))
        = map (measurement_request self) pre @ [measurement_request self m]"
      using ff by (simp add: eq) (simp add: ms issued_append)
  }
qed

text \<open>
  The theorem at a list of three measurements, with a client that never raises and with
  one that raises on the second post.
\<close>

theorem send_measurements_in_order_witness:
  "list_all (\<lambda>m. m_station_id m \<noteq> None) [msmt (Some ''a'') 1, msmt (Some ''b'') 2, msmt (Some ''a'') 3] \<and>
   fst (send_measurements (manager (fail_at never PNone))
          (Some [msmt (Some ''a'') 1, msmt (Some ''b'') 2, msmt (Some ''a'') 3]) w0) = Inr () \<and>
   issued w0 (snd (send_measurements (manager (fail_at never PNone))
          (Some [msmt (Some ''a'') 1, msmt (Some ''b'') 2, msmt (Some ''a'') 3]) w0))
     = [measurement_request (manager (fail_at never PNone)) (msmt (Some ''a'') 1),
        measurement_request (manager (fail_at never PNone)) (msmt (Some ''b'') 2),
        measurement_request (manager (fail_at never PNone)) (msmt (Some ''a'') 3)] \<and>
   fst (send_measurements (manager (fail_at 1 PNone))
          (Some [msmt (Some ''a'') 1, msmt (Some ''b'') 2, msmt (Some ''a'') 3]) w0)
     = Inl (OtherError ''unreachable'') \<and>
   issued w0 (snd (send_measurements (manager (fail_at 1 PNone))
          (Some [msmt (Some ''a'') 1, msmt (Some ''b'') 2, msmt (Some ''a'') 3]) w0))
     = [measurement_request (manager (fail_at 1 PNone)) (msmt (Some ''a'') 1),
        measurement_request (manager (fail_at 1 PNone)) (msmt (Some ''b'') 2)]"
proof -
  let ?ms = "[msmt (Some ''a'') 1, msmt (Some ''b'') 2, msmt (Some ''a'') 3]"
  have v: "list_all (\<lambda>m. m_station_id m \<noteq> None) ?ms"
    by (simp add: msmt_def)
  have ok: "accepts (http_client (manager (fail_at never PNone)))
              (map (measurement_request (manager (fail_at never PNone))) ?ms) (net w0)"
    by (simp add: manager_def fail_at_def never_def w0_def)
  have pre: "accepts (http_client (manager (fail_at 1 PNone)))
              (map (measurement_request (manager (fail_at 1 PNone))) [msmt (Some ''a'') 1]) (net w0)"
    by (simp add: manager_def fail_at_def w0_def)
  have bad: "fst (http_client (manager (fail_at 1 PNone))
               (measurement_request (manager (fail_at 1 PNone)) (msmt (Some ''b'') 2))
               (after (http_client (manager (fail_at 1 PNone)))
                  (map (measurement_request (manager (fail_at 1 PNone))) [msmt (Some ''a'') 1]) (net w0)))
             = Inl (OtherError ''unreachable'')"
    by (simp add: manager_def fail_at_def w0_def)
  show ?thesis
    using v ok pre bad
      send_measurements_in_order [OF v, where self = "manager (fail_at never PNone)" and s = w0
        and pre = "[]" and m = "msmt (Some ''a'') 1"
        and rest = "[msmt (Some ''b'') 2, msmt (Some ''a'') 3]" and e = AssertionError]
      send_measurements_in_order [OF v, where self = "manager (fail_at 1 PNone)" and s = w0
        and pre = "[msmt (Some ''a'') 1]" and m = "msmt (Some ''b'') 2"
        and rest = "[msmt (Some ''a'') 3]" and e = "OtherError ''unreachable''"]
    by simp
qed

subsection \<open>Updating and deleting a station\<close>

text \<open>
  C7. For a station whose id is \<open>None\<close>, \<open>update_station\<close> and \<open>delete_station\<close> raise
  \<open>AssertionError\<close> and leave the world as it was. For a station with an id each of them
  issues exactly one request (a PUT, a DELETE, on the URL of the station), and returns
  \<open>None\<close> when the HTTP client answers that request without raising.
\<close>

theorem update_delete_station_need_id:
  "(s_id st = None \<longrightarrow>
      update_station self st s = (Inl AssertionError, s) \<and>
      delete_station self st s = (Inl AssertionError, s)) \<and>
   (s_id st \<noteq> None \<longrightarrow>
      calls (snd (update_station self st s)) = calls s @ [update_request self st] \<and>
      calls (snd (delete_station self st s)) = calls s @ [delete_request self st] \<and>
      (\<forall>x. fst (http_client self (update_request self st) (net s)) = Inr x \<longrightarrow>
           fst (update_station self st s) = Inr ()) \<and>
      (\<forall>x. fst (http_client self (delete_request self st) (net s)) = Inr x \<longrightarrow>
           fst (delete_station self st s) = Inr ()))"
proof (intro conjI impI allI)
  assume "s_id st = None"
  then show "update_station self st s = (Inl AssertionError, s)"
    and "delete_station self st s = (Inl AssertionError, s)"
    by (simp_all add: update_station_def delete_station_def)
next
  assume i: "s_id st \<noteq> None"
  have u: "update_station self st s =
      (case http_call (http_client self) (update_request self st) s of
         (Inl e, s') \<Rightarrow> (Inl e, s') | (Inr (status, x), s') \<Rightarrow> (Inr (), s'))"
    using i by (auto simp: update_station_def put_def update_request_def appid_def json_headers_def
        station_url_def py_str_def)
  have d: "delete_station self st s =
      (case http_call (http_client self) (delete_request self st) s of
         (Inl e, s') \<Rightarrow> (Inl e, s') | (Inr (status, x), s') \<Rightarrow> (Inr (), s'))"
    using i by (auto simp: delete_station_def delete_def delete_request_def appid_def json_headers_def
        station_url_def py_str_def)
  obtain ru su where cu: "http_call (http_client self) (update_request self st) s = (ru, su)"
    by (cases "http_call (http_client self) (update_request self st) s")
  obtain rd sd where cd: "http_call (http_client self) (delete_request self st) s = (rd, sd)"
    by (cases "http_call (http_client self) (delete_request self st) s")
  have su: "calls su = calls s @ [update_request self st]"
    and ru: "ru = fst (http_client self (update_request self st) (net s))"
    using http_call_calls [of "http_client self" "update_request self st" s]
      http_call_fst [of "http_client self" "update_request self st" s] cu by simp_all
  have sd: "calls sd = calls s @ [delete_request self st]"
    and rd: "rd = fst (http_client self (delete_request self st) (net s))"
    using http_call_calls [of "http_client self" "delete_request self st" s]
      http_call_fst [of "http_client self" "delete_request self st" s] cd by simp_all
  show "calls (snd (update_station self st s)) = calls s @ [update_request self st]"
    using su by (cases ru) (auto simp: u cu)
  show "calls (snd (delete_station self st s)) = calls s @ [delete_request self st]"
    using sd by (cases rd) (auto simp: d cd)
  {
    fix x assume "fst (http_client self (update_request self st) (net s)) = Inr x"
    then show "fst (update_station self st s) = Inr ()"
      using ru by (cases x) (simp add: u cu)
  }
  {
    fix x assume "fst (http_client self (delete_request self st) (net s)) = Inr x"
    then show "fst (delete_station self st s) = Inr ()"
      using rd by (cases x) (simp add: d cd)
  }
qed

text \<open>The theorem at a station without id and at the station \<open>583\<close>.\<close>

theorem update_delete_station_need_id_witness:
  "s_id (station None) = None \<and> s_id (station (Some ''583'')) \<noteq> None \<and>
   update_station (manager (fail_at never PNone)) (station None) w0 = (Inl AssertionError, w0) \<and>
   delete_station (manager (fail_at never PNone)) (station None) w0 = (Inl AssertionError, w0) \<and>
   calls (snd (update_station (manager (fail_at never PNone)) (station (Some ''583'')) w0))
     = [update_request (manager (fail_at never PNone)) (station (Some ''583''))] \<and>
   calls (snd (delete_station (manager (fail_at never PNone)) (station (Some ''583'')) w0))
     = [delete_request (manager (fail_at never PNone)) (station (Some ''583''))] \<and>
   fst (update_station (manager (fail_at never PNone)) (station (Some ''583'')) w0) = Inr () \<and>
   fst (delete_station (manager (fail_at never PNone)) (station (Some ''583'')) w0) = Inr ()"
proof -
  have n: "s_id (station None) = None" and i: "s_id (station (Some ''583'')) \<noteq> None"
    by (simp_all add: station_def)
  have uok: "fst (http_client (manager (fail_at never PNone))
                (update_request (manager (fail_at never PNone)) (station (Some ''583''))) (net w0))
             = Inr (200, PNone)"
    and dok: "fst (http_client (manager (fail_at never PNone))
                (delete_request (manager (fail_at never PNone)) (station (Some ''583''))) (net w0))
             = Inr (200, PNone)"
    by (simp_all add: manager_def fail_at_def never_def w0_def)
  show ?thesis
    using n i uok dok
      update_delete_station_need_id [where self = "manager (fail_at never PNone)" and s = w0
        and st = "station None"]
      update_delete_station_need_id [where self = "manager (fail_at never PNone)" and s = w0
        and st = "station (Some ''583'')"]
    by (simp add: w0_def)
qed

subsection \<open>The credential on every request\<close>

lemma since_refl: "authenticated_since self s s"
  by (simp add: authenticated_since_def issued_def)

lemma since_call:
  "authenticated self r \<Longrightarrow> authenticated_since self s (snd (http_call t r s))"
  by (simp add: authenticated_since_def issued_def http_call_calls)

lemma since_post_each: "authenticated_since self s (snd (post_each self ms s))"
proof -
  obtain k where "calls (snd (post_each self ms s)) = calls s @ map (measurement_request self) (take k ms)"
    using post_each_calls_prefix by blast
  then show ?thesis
    by (simp add: authenticated_since_def issued_def list_all_iff authenticated_def
        measurement_request_def)
qed

lemma snd_case_call:
  assumes "\<And>res s'. snd (k res s') = s'"
  shows "snd (case p of (res, s') \<Rightarrow> k res s') = snd p"
  using assms by (cases p) simp

lemma since_case_call:
  assumes "authenticated self r" and "\<And>res s'. snd (k res s') = s'"
  shows "authenticated_since self s (snd (case http_call t r s of (res, s') \<Rightarrow> k res s'))"
  using assms by (simp add: snd_case_call since_call)

lemma authenticated_appid: "r_params r = appid self \<Longrightarrow> authenticated self r"
  by (simp add: authenticated_def appid_def)

lemma since_get_stations: "authenticated_since self s (snd (get_stations self s))"
  unfolding get_stations_def get_json_def
  by (rule since_case_call) (simp_all add: authenticated_appid split: sum.splits prod.splits)

lemma since_get_station: "authenticated_since self s (snd (get_station self i s))"
  unfolding get_station_def get_json_def
  by (rule since_case_call) (simp_all add: authenticated_appid split: sum.splits prod.splits)

lemma since_create_station:
  "authenticated_since self s (snd (create_station self external_id name lat lon alt s))"
proof -
  have "authenticated_since self s
     (snd (case post (http_client self) stations_url (appid self)
                (station_body external_id name lat lon alt) json_headers s of
           (Inl e, s') \<Rightarrow> (Inl e, s')
         | (Inr (status, payload), s') \<Rightarrow> (stations_parser self payload, s')))"
    unfolding post_def
    by (rule since_case_call) (simp_all add: authenticated_appid split: sum.splits prod.splits)
  then show ?thesis
    by (simp add: create_station_def since_refl)
qed

lemma since_update_station: "authenticated_since self s (snd (update_station self st s))"
proof -
  have "authenticated_since self s
     (snd (case put (http_client self) (station_url (s_id st)) (appid self)
                (station_body (s_external_id st) (s_name st) (s_lat st) (s_lon st) (s_alt st))
                json_headers s of
           (Inl e, s') \<Rightarrow> (Inl e, s')
         | (Inr (status, x), s') \<Rightarrow> (Inr (), s')))"
    unfolding put_def
    by (rule since_case_call) (simp_all add: authenticated_appid split: sum.splits prod.splits)
  then show ?thesis
    by (simp add: update_station_def since_refl)
qed

lemma since_delete_station: "authenticated_since self s (snd (delete_station self st s))"
proof -
  have "authenticated_since self s
     (snd (case delete (http_client self) (station_url (s_id st)) (appid self) json_headers s of
           (Inl e, s') \<Rightarrow> (Inl e, s')
         | (Inr (status, x), s') \<Rightarrow> (Inr (), s')))"
    unfolding delete_def
    by (rule since_case_call) (simp_all add: authenticated_appid split: sum.splits prod.splits)
  then show ?thesis
    by (simp add: delete_station_def since_refl)
qed

lemma since_send_measurement:
  "authenticated_since self s (snd (send_measurement self measurement s))"
proof -
  have "authenticated_since self s
     (snd (case post_measurement self (the measurement) s of
           (Inl e, s') \<Rightarrow> (Inl e, s')
         | (Inr (status, x), s') \<Rightarrow> (Inr (), s')))"
    unfolding post_measurement_def post_def
    by (rule since_case_call) (simp_all add: authenticated_appid split: sum.splits prod.splits)
  then show ?thesis
    by (simp add: send_measurement_def since_refl)
qed

lemma authenticated_query:
  "authenticated self
     \<lparr>r_method = GET, r_url = measurements_url,
      r_params = query self station_id aggregated_on from_timestamp to_timestamp limit,
      r_data = None, r_headers = json_headers\<rparr>"
  by (simp add: authenticated_def query_def)

lemma since_get_measurements:
  "authenticated_since self s
     (snd (get_measurements self station_id aggregated_on from_timestamp to_timestamp limit s))"
proof -
  have h: "authenticated_since self s
     (snd (case get_json (http_client self) measurements_url
                (query self station_id aggregated_on from_timestamp to_timestamp l)
                json_headers s of
           (Inl e, s') \<Rightarrow> (Inl e, s')
         | (Inr (status, data), s') \<Rightarrow>
             (case py_iter data of
                Inl e \<Rightarrow> (Inl e, s')
              | Inr items \<Rightarrow> (parse_each (aggregated_measurements_parser self) items, s'))))" for l
    unfolding get_json_def
    by (rule since_case_call) (simp_all add: authenticated_query split: sum.splits prod.splits)
  show ?thesis
    by (simp add: get_measurements_def since_refl h)
qed

text \<open>
  C9. Whatever the arguments, the world after a call of any of the nine public operations
  (\<open>get_stations\<close>, \<open>get_station\<close>, \<open>create_station\<close>, \<open>update_station\<close>,
  \<open>delete_station\<close>, \<open>send_measurement\<close>, \<open>send_measurements\<close>, \<open>get_measurements\<close>,
  \<open>send_buffer\<close>) keeps the requests recorded before the call and adds only requests
  whose query parameter \<open>appid\<close> is the API key of the manager.
\<close>

theorem appid_on_every_request:
  "authenticated_since self s (snd (get_stations self s)) \<and>
   authenticated_since self s (snd (get_station self i s)) \<and>
   authenticated_since self s (snd (create_station self external_id name lat lon alt s)) \<and>
   authenticated_since self s (snd (update_station self st s)) \<and>
   authenticated_since self s (snd (delete_station self st s)) \<and>
   authenticated_since self s (snd (send_measurement self measurement s)) \<and>
   authenticated_since self s (snd (send_measurements self list_of_measurements s)) \<and>
   authenticated_since self s
     (snd (get_measurements self station_id aggregated_on from_timestamp to_timestamp limit s)) \<and>
   authenticated_since self s (snd (send_buffer self buffer s))"
proof (intro conjI)
  show "authenticated_since self s (snd (send_measurements self list_of_measurements s))"
    by (simp add: send_measurements_def since_refl since_post_each)
  show "authenticated_since self s (snd (send_buffer self buffer s))"
    by (simp add: send_buffer_def since_refl since_post_each)
qed (rule since_get_stations since_get_station since_create_station since_update_station
    since_delete_station since_send_measurement since_get_measurements)+

text \<open>
  The theorem at a buffer of two measurements and at a query of aggregated measurements:
  the two posts and the one get carry the key \<open>secret\<close>.
\<close>

theorem appid_on_every_request_witness:
  "map (\<lambda>r. map_of (r_params r) ''appid'')
     (issued w0 (snd (send_buffer (manager (fail_at never PNone))
        (Some [msmt (Some ''a'') 1, msmt (Some ''b'') 2]) w0)))
     = [Some (PStr ''secret''), Some (PStr ''secret'')] \<and>
   authenticated_since (manager (fail_at never PNone)) w0
     (snd (send_buffer (manager (fail_at never PNone))
        (Some [msmt (Some ''a'') 1, msmt (Some ''b'') 2]) w0)) \<and>
   map (\<lambda>r. map_of (r_params r) ''appid'')
     (issued w0 (snd (get_measurements (manager (fail_at never (PList []))) (Some ''st'') (Some ''h'')
        (Some 3) (Some 5) (PInt 10) w0)))
     = [Some (PStr ''secret'')] \<and>
   authenticated_since (manager (fail_at never (PList []))) w0
     (snd (get_measurements (manager (fail_at never (PList []))) (Some ''st'') (Some ''h'')
        (Some 3) (Some 5) (PInt 10) w0))"
  using appid_on_every_request [where self = "manager (fail_at never PNone)" and s = w0
      and buffer = "Some [msmt (Some ''a'') 1, msmt (Some ''b'') 2]"]
    appid_on_every_request [where self = "manager (fail_at never (PList []))" and s = w0
      and station_id = "Some ''st''" and aggregated_on = "Some ''h''" and from_timestamp = "Some 3"
      and to_timestamp = "Some 5" and limit = "PInt 10"]
  by (simp add: send_buffer_def post_measurement_eq http_call_def manager_def fail_at_def never_def
      w0_def issued_def measurement_request_def get_measurements_def get_json_def query_def)

end
